theory Spec2Isabelle
  imports Main "HOL-Library.Sublist"
begin

section \<open>Domain entities (domain/entities.py)\<close>

text \<open>
  Python exceptions are values: every function of the source that can raise returns
  \<open>error + 'a\<close>, with \<open>Inl\<close> for the exception, and every \<^verbatim>\<open>try/except\<close> of the source
  is a case distinction on that sum.
\<close>

datatype error = KeyError | ValueError | TypeError | AttributeError | ClientError | StoreError

datatype ResourceType = COURSE | ARTICLE | VACANCY | PROJECT | COMPETITION

fun ResourceType_value :: "ResourceType \<Rightarrow> string" where
  "ResourceType_value COURSE = ''course''"
| "ResourceType_value ARTICLE = ''article''"
| "ResourceType_value VACANCY = ''vacancy''"
| "ResourceType_value PROJECT = ''project''"
| "ResourceType_value COMPETITION = ''competition''"

text \<open>The enum constructor \<^verbatim>\<open>ResourceType(s)\<close> raises ValueError on an unknown value.\<close>

definition ResourceType_of :: "string \<Rightarrow> error + ResourceType" where
  "ResourceType_of s =
     (if s = ''course'' then Inr COURSE
      else if s = ''article'' then Inr ARTICLE
      else if s = ''vacancy'' then Inr VACANCY
      else if s = ''project'' then Inr PROJECT
      else if s = ''competition'' then Inr COMPETITION
      else Inl ValueError)"

datatype meta_val = MStr string | MInt int

text \<open>
  The dataclass \<^verbatim>\<open>Resource\<close>. Its fields \<^verbatim>\<open>id\<close> and \<^verbatim>\<open>created_at\<close> are filled from the
  wall clock (\<^verbatim>\<open>datetime.now()\<close>) and are read by none of the functions below, so the record
  leaves them out. Strings are byte strings; text outside ASCII is its UTF-8 encoding.
\<close>

record Resource =
  title :: string
  url :: string
  description :: string
  resource_type :: ResourceType
  skill :: string
  metadata :: "(string \<times> meta_val) list"

text \<open>\<^verbatim>\<open>Resource(title=t, url=u, resource_type=rt, metadata={"source": src})\<close>, the other
  fields at their defaults.\<close>

definition new_resource :: "string \<Rightarrow> string \<Rightarrow> ResourceType \<Rightarrow> string \<Rightarrow> Resource" where
  "new_resource t u rt src =
     \<lparr>title = t, url = u, description = [], resource_type = rt, skill = [],
      metadata = [(''source'', MStr src)]\<rparr>"

section \<open>The document tree read by the HTML parsers\<close>

text \<open>
  \<^verbatim>\<open>BeautifulSoup(html, 'html.parser')\<close> is a library call; the parsers are modelled on the
  tree it builds. A tag has a name, the tokens of its \<^verbatim>\<open>class\<close> attribute, its other
  attributes and its children. The soup object itself is the root tag \<^verbatim>\<open>[document]\<close>.
\<close>

datatype node =
    NavigableString string
  | Tag (tag_name: string) (tag_classes: "string list")
        (tag_attrs: "(string \<times> string) list") (tag_contents: "node list")

definition soup :: "node list \<Rightarrow> node" where
  "soup doc = Tag ''[document]'' [] [] doc"

text \<open>\<^verbatim>\<open>tag.get_text()\<close>: all strings below the tag, concatenated in document order.\<close>

fun get_text :: "node \<Rightarrow> string" where
  "get_text (NavigableString s) = s"
| "get_text (Tag n cl at kids) = concat (map get_text kids)"

text \<open>\<^verbatim>\<open>str.strip()\<close> on ASCII text: whitespace is removed at both ends.\<close>

definition isspace :: "char \<Rightarrow> bool" where
  "isspace c = (c \<in> set [CHR 0x09, CHR 0x0A, CHR 0x0B, CHR 0x0C, CHR 0x0D,
                             CHR 0x1C, CHR 0x1D, CHR 0x1E, CHR 0x1F, CHR 0x20])"

definition strip :: "string \<Rightarrow> string" where
  "strip s = rev (dropWhile isspace (rev (dropWhile isspace s)))"

text \<open>
  All nodes strictly below a tag, in document order, each with the chain of its
  ancestors (nearest first); \<open>anc\<close> is the chain of the tag itself.
\<close>

fun descendants :: "node list \<Rightarrow> node \<Rightarrow> (node list \<times> node) list" where
  "descendants anc (NavigableString s) = []"
| "descendants anc (Tag n cl at kids) =
     concat (map (\<lambda>k. (Tag n cl at kids # anc, k) # descendants (Tag n cl at kids # anc) k) kids)"

text \<open>A search by tag name and, optionally, by one class token (\<^verbatim>\<open>class_=...\<close>).\<close>

fun matches :: "string \<Rightarrow> string option \<Rightarrow> node \<Rightarrow> bool" where
  "matches nm cls (NavigableString s) = False"
| "matches nm cls (Tag n cl at kids) =
     (n = nm \<and> (case cls of None \<Rightarrow> True | Some c \<Rightarrow> c \<in> set cl))"

definition find_all :: "node list \<Rightarrow> node \<Rightarrow> string \<Rightarrow> string option \<Rightarrow> (node list \<times> node) list" where
  "find_all anc root nm cls = filter (\<lambda>(a, k). matches nm cls k) (descendants anc root)"

text \<open>\<^verbatim>\<open>tag.find(...)\<close>: the first match below the tag, or None.\<close>

definition find_tag :: "node list \<Rightarrow> node \<Rightarrow> string \<Rightarrow> string option \<Rightarrow> node option" where
  "find_tag anc root nm cls =
     (case find_all anc root nm cls of [] \<Rightarrow> None | (a, k) # rest \<Rightarrow> Some k)"

text \<open>\<^verbatim>\<open>tag.find_parent(name)\<close>: the nearest ancestor with that name, or None.\<close>

definition find_parent :: "node list \<Rightarrow> string \<Rightarrow> node option" where
  "find_parent anc nm = List.find (\<lambda>p. matches nm None p) anc"

text \<open>\<^verbatim>\<open>tag['href']\<close> is a dictionary read of the tag's attributes: KeyError when absent.\<close>

definition getitem :: "node \<Rightarrow> string \<Rightarrow> error + string" where
  "getitem t k = (case map_of (tag_attrs t) k of None \<Rightarrow> Inl KeyError | Some v \<Rightarrow> Inr v)"

text \<open>
  A \<^verbatim>\<open>for\<close> loop that appends to a result list and stops at the first exception of
  its body.
\<close>

fun for_each :: "('a \<Rightarrow> error + 'b list) \<Rightarrow> 'a list \<Rightarrow> error + 'b list" where
  "for_each body [] = Inr []"
| "for_each body (x # xs) =
     (case body x of
        Inl e \<Rightarrow> Inl e
      | Inr ys \<Rightarrow> (case for_each body xs of Inl e \<Rightarrow> Inl e | Inr zs \<Rightarrow> Inr (ys @ zs)))"

section \<open>The source parsers (infrastructure/searcher/web\_searcher.py)\<close>

text \<open>
  In \<^verbatim>\<open>"origin" + link_tag['href'] if link_tag else ""\<close> the conditional binds weakest,
  and a bs4 tag is always truthy: the link is the origin followed by the attribute when
  the tag was found, the empty string otherwise.
\<close>

definition coursera_entry :: "node list \<times> node \<Rightarrow> error + Resource list" where
  "coursera_entry = (\<lambda>(anc, res).
     let t = strip (get_text res);
         link = (case find_parent anc ''a'' of
                   None \<Rightarrow> Inr []
                 | Some link_tag \<Rightarrow>
                     (case getitem link_tag ''href'' of
                        Inl e \<Rightarrow> Inl e
                      | Inr h \<Rightarrow> Inr (''https://www.coursera.org'' @ h)))
     in case link of
          Inl e \<Rightarrow> Inl e
        | Inr l \<Rightarrow> Inr (if t \<noteq> [] then [new_resource t l COURSE ''coursera''] else []))"

definition parse_courses_from_coursera :: "node list \<Rightarrow> error + Resource list" where
  "parse_courses_from_coursera html =
     for_each coursera_entry (take 3 (find_all [] (soup html) ''h2'' (Some ''card-title'')))"

definition stepik_entry :: "node list \<times> node \<Rightarrow> error + Resource list" where
  "stepik_entry = (\<lambda>(anc, res).
     let t = strip (get_text res)
     in case getitem res ''href'' of
          Inl e \<Rightarrow> Inl e
        | Inr h \<Rightarrow> Inr [new_resource t (''https://stepik.org'' @ h) COURSE ''stepik''])"

definition parse_courses_from_stepik :: "node list \<Rightarrow> error + Resource list" where
  "parse_courses_from_stepik html =
     for_each stepik_entry (take 3 (find_all [] (soup html) ''a'' (Some ''course-card__title'')))"

text \<open>The placeholder titles of the source are Cyrillic words, here in UTF-8.\<close>

definition article_placeholder :: string where
  "article_placeholder =
     [CHR 0xD0, CHR 0xA1, CHR 0xD1, CHR 0x82, CHR 0xD0, CHR 0xB0,
      CHR 0xD1, CHR 0x82, CHR 0xD1, CHR 0x8C, CHR 0xD1, CHR 0x8F]"

definition vacancy_placeholder :: string where
  "vacancy_placeholder =
     [CHR 0xD0, CHR 0x92, CHR 0xD0, CHR 0xB0, CHR 0xD0, CHR 0xBA, CHR 0xD0, CHR 0xB0,
      CHR 0xD0, CHR 0xBD, CHR 0xD1, CHR 0x81, CHR 0xD0, CHR 0xB8, CHR 0xD1, CHR 0x8F]"

definition habr_article_entry :: "node list \<times> node \<Rightarrow> error + Resource list" where
  "habr_article_entry = (\<lambda>(anc, res).
     let t = (case find_tag anc res ''h2'' None of
                None \<Rightarrow> article_placeholder
              | Some title_tag \<Rightarrow> strip (get_text title_tag))
     in case find_tag anc res ''a'' (Some ''post__title_link'') of
          None \<Rightarrow> Inr [new_resource t [] ARTICLE ''habr'']
        | Some link_tag \<Rightarrow>
            (case getitem link_tag ''href'' of
               Inl e \<Rightarrow> Inl e
             | Inr h \<Rightarrow> Inr [new_resource t h ARTICLE ''habr'']))"

definition parse_articles_from_habr :: "node list \<Rightarrow> error + Resource list" where
  "parse_articles_from_habr html =
     for_each habr_article_entry (take 3 (find_all [] (soup html) ''article'' (Some ''post'')))"

definition habr_vacancy_entry :: "node list \<times> node \<Rightarrow> error + Resource list" where
  "habr_vacancy_entry = (\<lambda>(anc, card).
     case find_tag anc card ''a'' None of
       None \<Rightarrow> Inr [new_resource vacancy_placeholder [] VACANCY ''habr_career'']
     | Some title_tag \<Rightarrow>
         (case getitem title_tag ''href'' of
            Inl e \<Rightarrow> Inl e
          | Inr h \<Rightarrow>
              Inr [new_resource (strip (get_text title_tag)) (''https://career.habr.com'' @ h)
                     VACANCY ''habr_career'']))"

definition parse_vacancies_from_habr :: "node list \<Rightarrow> error + Resource list" where
  "parse_vacancies_from_habr html =
     for_each habr_vacancy_entry
       (take 3 (find_all [] (soup html) ''div'' (Some ''vacancy-card__title'')))"

definition kaggle_entry :: "node list \<times> node \<Rightarrow> error + Resource list" where
  "kaggle_entry = (\<lambda>(anc, card).
     let t = (case find_tag anc card ''div'' (Some ''title'') of
                None \<Rightarrow> ''Competition''
              | Some title_tag \<Rightarrow> strip (get_text title_tag))
     in case find_parent anc ''a'' of
          None \<Rightarrow> Inr [new_resource t [] COMPETITION ''kaggle'']
        | Some link_tag \<Rightarrow>
            (case getitem link_tag ''href'' of
               Inl e \<Rightarrow> Inl e
             | Inr h \<Rightarrow> Inr [new_resource t (''https://www.kaggle.com'' @ h) COMPETITION ''kaggle'']))"

definition parse_competitions_from_kaggle :: "node list \<Rightarrow> error + Resource list" where
  "parse_competitions_from_kaggle html =
     for_each kaggle_entry
       (take 3 (find_all [] (soup html) ''div'' (Some ''competition-card__header'')))"

text \<open>
  The repository search answers with a JSON object. Its entries are taken as typed by
  the search schema: each field is absent (None) or a value of its type, and the
  \<^verbatim>\<open>items\<close> key is absent or a list of entries.
\<close>

record repo =
  repo_name :: "string option"
  html_url :: "string option"
  repo_description :: "string option"
  stargazers_count :: "int option"

definition get_or :: "'a option \<Rightarrow> 'a \<Rightarrow> 'a" where
  "get_or v d = (case v of None \<Rightarrow> d | Some x \<Rightarrow> x)"

definition github_entry :: "repo \<Rightarrow> Resource" where
  "github_entry r =
     \<lparr>title = get_or (repo_name r) [], url = get_or (html_url r) [],
      description = get_or (repo_description r) [], resource_type = PROJECT, skill = [],
      metadata = [(''source'', MStr ''github''), (''stars'', MInt (get_or (stargazers_count r) 0))]\<rparr>"

definition parse_projects_from_github :: "repo list option \<Rightarrow> Resource list" where
  "parse_projects_from_github json_data = map github_entry (take 3 (get_or json_data []))"

section \<open>The outside world\<close>

text \<open>
  The vector database, the web and the clock are outside the program. Each external call
  takes the current world \<open>'w\<close> and returns its outcome together with the next world, so
  no assumption is made on what the collaborators answer. A hit of the vector database
  is the metadata dictionary stored with a document (None when the document has none).
  \<^verbatim>\<open>json.loads\<close> and \<^verbatim>\<open>datetime.fromisoformat\<close> are library functions on strings.
\<close>

type_synonym hit = "(string \<times> string) list option"

record responses =
  coursera_html :: "node list"
  stepik_html :: "node list"
  habr_articles_html :: "node list"
  habr_vacancies_html :: "node list"
  github_data :: "repo list option"
  kaggle_html :: "node list"

record 'w env =
  collection_query :: "string \<Rightarrow> nat \<Rightarrow> (string \<times> string) list \<Rightarrow> 'w \<Rightarrow> (error + hit list) \<times> 'w"
  get_or_create_collection :: "'w \<Rightarrow> error option \<times> 'w"
  collection_add :: "Resource list \<Rightarrow> 'w \<Rightarrow> error option \<times> 'w"
  http_get_html :: "string \<Rightarrow> 'w \<Rightarrow> (error + node list) \<times> 'w"
  http_get_json :: "string \<Rightarrow> 'w \<Rightarrow> (error + repo list option) \<times> 'w"
  json_loads :: "string \<Rightarrow> error + (string \<times> meta_val) list"
  fromisoformat :: "string \<Rightarrow> error + unit"

text \<open>
  The state threaded through the service: the world, and the list of skills for which
  the web fan-out was started (the record a spy on \<^verbatim>\<open>find_resources_for_skill\<close> keeps).
\<close>

record 'w state =
  world :: 'w
  fanouts :: "string list"

section \<open>The vector store (infrastructure/vector\_store/chroma\_store.py)\<close>

text \<open>\<^verbatim>\<open>ChromaVectorStore.search\<close> catches every exception and answers with no hits.\<close>

definition search :: "'w env \<Rightarrow> string \<Rightarrow> nat \<Rightarrow> (string \<times> string) list \<Rightarrow> 'w \<Rightarrow> hit list \<times> 'w" where
  "search env query n_results flt w =
     (case collection_query env query n_results flt w of
        (Inl e, w') \<Rightarrow> ([], w')
      | (Inr formatted_results, w') \<Rightarrow> (formatted_results, w'))"

text \<open>\<^verbatim>\<open>ChromaVectorStore.create_collection\<close> catches every exception and returns a flag.\<close>

definition create_collection :: "'w env \<Rightarrow> 'w \<Rightarrow> bool \<times> 'w" where
  "create_collection env w =
     (case get_or_create_collection env w of
        (None, w') \<Rightarrow> (True, w')
      | (Some e, w') \<Rightarrow> (False, w'))"

text \<open>\<^verbatim>\<open>ChromaVectorStore.add_documents\<close> logs an exception and raises it again.\<close>

definition add_documents :: "'w env \<Rightarrow> Resource list \<Rightarrow> 'w \<Rightarrow> (error + unit) \<times> 'w" where
  "add_documents env docs w =
     (case collection_add env docs w of
        (Some e, w') \<Rightarrow> (Inl e, w')
      | (None, w') \<Rightarrow> (Inr (), w'))"

section \<open>The resource repository (infrastructure/repositories/resource\_repository.py)\<close>

definition dict_get_str :: "(string \<times> string) list \<Rightarrow> string \<Rightarrow> string \<Rightarrow> string" where
  "dict_get_str d k dflt = (case map_of d k of None \<Rightarrow> dflt | Some v \<Rightarrow> v)"

definition bind_err :: "error + 'a \<Rightarrow> ('a \<Rightarrow> error + 'b) \<Rightarrow> error + 'b" where
  "bind_err m f = (case m of Inl e \<Rightarrow> Inl e | Inr x \<Rightarrow> f x)"

text \<open>
  \<^verbatim>\<open>_metadata_to_resource\<close>: reading a field of None raises AttributeError, an unknown
  resource type ValueError, and the two library parsers raise on malformed text. An
  absent \<^verbatim>\<open>created_at\<close> defaults to the current time, which always parses.
\<close>

definition metadata_to_resource :: "'w env \<Rightarrow> hit \<Rightarrow> error + Resource" where
  "metadata_to_resource env h =
     (case h of
        None \<Rightarrow> Inl AttributeError
      | Some md \<Rightarrow>
          bind_err (ResourceType_of (dict_get_str md ''resource_type'' (ResourceType_value COURSE))) (\<lambda>rt.
          bind_err (json_loads env (dict_get_str md ''metadata'' ''{}'')) (\<lambda>meta.
          bind_err (case map_of md ''created_at'' of None \<Rightarrow> Inr () | Some c \<Rightarrow> fromisoformat env c) (\<lambda>created.
            Inr \<lparr>title = dict_get_str md ''title'' [], url = dict_get_str md ''url'' [],
                 description = dict_get_str md ''description'' [], resource_type = rt,
                 skill = dict_get_str md ''skill'' [], metadata = meta\<rparr>))))"

text \<open>\<^verbatim>\<open>search_by_skill\<close>: a hit whose conversion raises is logged and skipped.\<close>

definition search_by_skill :: "'w env \<Rightarrow> string \<Rightarrow> string \<Rightarrow> nat \<Rightarrow> 'w \<Rightarrow> Resource list \<times> 'w" where
  "search_by_skill env sk rt limit w =
     (let filter_dict = (''skill'', sk) # (if rt \<noteq> [] then [(''resource_type'', rt)] else []);
          (results, w') = search env sk limit filter_dict w
      in (concat (map (\<lambda>result. case metadata_to_resource env result of
                                   Inl e \<Rightarrow> []
                                 | Inr resource \<Rightarrow> [resource]) results), w'))"

text \<open>\<^verbatim>\<open>_create_collection_if_not_exists\<close> ignores the outcome of the creation.\<close>

definition create_collection_if_not_exists :: "'w env \<Rightarrow> 'w \<Rightarrow> 'w" where
  "create_collection_if_not_exists env w = snd (create_collection env w)"

text \<open>\<^verbatim>\<open>save_batch\<close> has no handler around \<^verbatim>\<open>add_documents\<close>: its exception propagates.\<close>

definition save_batch :: "'w env \<Rightarrow> Resource list \<Rightarrow> 'w \<Rightarrow> (error + unit) \<times> 'w" where
  "save_batch env resources w =
     add_documents env resources (create_collection_if_not_exists env w)"

section \<open>The web searcher (infrastructure/searcher/web\_searcher.py)\<close>

text \<open>
  \<^verbatim>\<open>fetch_text\<close> returns the empty text on a status other than 200 and on any exception;
  the document of the empty text has no nodes.
\<close>

definition fetch_text :: "'w env \<Rightarrow> string \<Rightarrow> 'w \<Rightarrow> node list \<times> 'w" where
  "fetch_text env u w =
     (case http_get_html env u w of
        (Inl e, w') \<Rightarrow> ([], w')
      | (Inr doc, w') \<Rightarrow> (doc, w'))"

text \<open>
  The repository request: an exception of the request or of decoding its body leaves
  \<^verbatim>\<open>github_data = {}\<close>, the object without \<^verbatim>\<open>items\<close>.
\<close>

definition fetch_github :: "'w env \<Rightarrow> string \<Rightarrow> 'w \<Rightarrow> repo list option \<times> 'w" where
  "fetch_github env u w =
     (case http_get_json env u w of
        (Inl e, w') \<Rightarrow> (None, w')
      | (Inr data, w') \<Rightarrow> (data, w'))"

text \<open>
  The six requests of \<^verbatim>\<open>asyncio.gather\<close>, taken in the order of the task list. Every
  request ends in a value (\<^verbatim>\<open>return_exceptions=True\<close>), none stops another.
\<close>

definition fetch_responses :: "'w env \<Rightarrow> string \<Rightarrow> 'w \<Rightarrow> responses \<times> 'w" where
  "fetch_responses env query w0 =
     (let (r0, w1) = fetch_text env (''https://www.coursera.org/search?query='' @ query) w0;
          (r1, w2) = fetch_text env (''https://stepik.org/catalog/search?query='' @ query) w1;
          (r2, w3) = fetch_text env (''https://habr.com/ru/search/?q='' @ query
                                       @ ''&target_type=posts&order=relevance'') w2;
          (r3, w4) = fetch_text env (''https://career.habr.com/vacancies?keywords='' @ query) w3;
          (r4, w5) = fetch_github env (''https://api.github.com/search/repositories?q='' @ query
                                         @ ''+in:name,description&sort=stars'') w4;
          (r5, w6) = fetch_text env (''https://www.kaggle.com/competitions?search='' @ query) w5
      in (\<lparr>coursera_html = r0, stepik_html = r1, habr_articles_html = r2,
           habr_vacancies_html = r3, github_data = r4, kaggle_html = r5\<rparr>, w6))"

text \<open>The parsers run one after the other with no handler: the first exception ends all.\<close>

definition parse_responses ::
  "responses \<Rightarrow> error + (Resource list \<times> Resource list \<times> Resource list \<times> Resource list \<times> Resource list)" where
  "parse_responses r =
     bind_err (parse_courses_from_coursera (coursera_html r)) (\<lambda>coursera.
     bind_err (parse_courses_from_stepik (stepik_html r)) (\<lambda>stepik.
     bind_err (parse_articles_from_habr (habr_articles_html r)) (\<lambda>articles.
     bind_err (parse_vacancies_from_habr (habr_vacancies_html r)) (\<lambda>vacancies.
     bind_err (parse_competitions_from_kaggle (kaggle_html r)) (\<lambda>competitions.
       Inr (coursera @ stepik, articles, vacancies,
            parse_projects_from_github (github_data r), competitions))))))"

type_synonym rdict = "(string \<times> Resource list) list"

definition stamp :: "string \<Rightarrow> Resource list \<Rightarrow> Resource list" where
  "stamp sk rs = map (\<lambda>resource. resource\<lparr>skill := sk\<rparr>) rs"

definition find_resources_for_skill :: "'w env \<Rightarrow> string \<Rightarrow> 'w state \<Rightarrow> (error + rdict) \<times> 'w state" where
  "find_resources_for_skill env sk st =
     (let (resp, w) = fetch_responses env sk (world st);
          st1 = \<lparr>world = w, fanouts = fanouts st @ [sk]\<rparr>
      in case parse_responses resp of
           Inl e \<Rightarrow> (Inl e, st1)
         | Inr (courses0, articles0, vacancies0, projects0, competitions0) \<Rightarrow>
             (let courses = stamp sk courses0;
                  articles = stamp sk articles0;
                  vacancies = stamp sk vacancies0;
                  projects = stamp sk projects0;
                  competitions = stamp sk competitions0;
                  all_resources = courses @ articles @ vacancies @ projects @ competitions;
                  result = [(''courses'', courses), (''articles'', articles),
                            (''vacancies'', vacancies), (''projects'', projects),
                            (''competitions'', competitions)]
              in if all_resources \<noteq> [] then
                   (case save_batch env all_resources w of
                      (Inl e, w') \<Rightarrow> (Inl e, st1\<lparr>world := w'\<rparr>)
                    | (Inr saved, w') \<Rightarrow> (Inr result, st1\<lparr>world := w'\<rparr>))
                 else (Inr result, st1)))"

section \<open>The career service (application/services/career\_service.py)\<close>

text \<open>
  \<^verbatim>\<open>d.get(k, [])\<close> and \<^verbatim>\<open>d[k].extend(xs)\<close> on a dictionary kept in insertion order. The
  service only extends keys of its own literal dictionary, which are always present.
\<close>

definition dict_get :: "rdict \<Rightarrow> string \<Rightarrow> Resource list" where
  "dict_get d k = (case map_of d k of None \<Rightarrow> [] | Some v \<Rightarrow> v)"

definition dict_extend :: "rdict \<Rightarrow> string \<Rightarrow> Resource list \<Rightarrow> rdict" where
  "dict_extend d k xs = map (\<lambda>(k', v). if k' = k then (k', v @ xs) else (k', v)) d"

definition resources_by_category_init :: rdict where
  "resources_by_category_init =
     [(''courses'', []), (''articles'', []), (''vacancies'', []), (''projects'', []),
      (''competitions'', [])]"

text \<open>Lines 203 to 222: the four reads of the semantic store for one skill.\<close>

definition store_lookup ::
  "'w env \<Rightarrow> string \<Rightarrow> 'w \<Rightarrow> (Resource list \<times> Resource list \<times> Resource list \<times> Resource list) \<times> 'w" where
  "store_lookup env sk w0 =
     (let (courses, w1) = search_by_skill env sk (ResourceType_value COURSE) 5 w0;
          (articles, w2) = search_by_skill env sk (ResourceType_value ARTICLE) 5 w1;
          (projects, w3) = search_by_skill env sk (ResourceType_value PROJECT) 5 w2;
          (competitions, w4) = search_by_skill env sk (ResourceType_value COMPETITION) 5 w3
      in ((courses, articles, projects, competitions), w4))"

text \<open>
  Lines 203 to 233: the lists of one skill after the optional web search.
  \<open>web_searcher\<close> says whether the service was built with a web searcher.
\<close>

definition skill_resources ::
  "bool \<Rightarrow> 'w env \<Rightarrow> string \<Rightarrow> 'w state
     \<Rightarrow> (Resource list \<times> Resource list \<times> Resource list \<times> Resource list) \<times> 'w state" where
  "skill_resources web_searcher env sk st =
     (case store_lookup env sk (world st) of
        ((courses, articles, projects, competitions), w4) \<Rightarrow>
          if length courses + length articles + length projects + length competitions < 5
             \<and> web_searcher
          then (case find_resources_for_skill env sk (st\<lparr>world := w4\<rparr>) of
                  (Inr web_resources, st') \<Rightarrow>
                    ((courses @ dict_get web_resources ''courses'',
                      articles @ dict_get web_resources ''articles'',
                      projects @ dict_get web_resources ''projects'',
                      competitions @ dict_get web_resources ''competitions''), st')
                | (Inl e, st') \<Rightarrow> ((courses, articles, projects, competitions), st'))
          else ((courses, articles, projects, competitions), st\<lparr>world := w4\<rparr>))"

text \<open>One iteration of the loop over the skills (lines 201 to 238).\<close>

definition skill_iteration :: "bool \<Rightarrow> 'w env \<Rightarrow> string \<Rightarrow> rdict \<times> 'w state \<Rightarrow> rdict \<times> 'w state" where
  "skill_iteration web_searcher env sk = (\<lambda>(resources_by_category, st).
     case skill_resources web_searcher env sk st of
       ((courses, articles, projects, competitions), st') \<Rightarrow>
         (dict_extend (dict_extend (dict_extend (dict_extend resources_by_category ''courses'' courses)
            ''articles'' articles) ''projects'' projects) ''competitions'' competitions, st'))"

fun skills_loop :: "bool \<Rightarrow> 'w env \<Rightarrow> string list \<Rightarrow> rdict \<times> 'w state \<Rightarrow> rdict \<times> 'w state" where
  "skills_loop web_searcher env [] acc = acc"
| "skills_loop web_searcher env (sk # skills) acc =
     skills_loop web_searcher env skills (skill_iteration web_searcher env sk acc)"

text \<open>
  Lines 240 to 248. The set \<^verbatim>\<open>seen_urls\<close> is created once, before the loop over the
  categories, and is carried from each category to the next.
\<close>

fun unique_resources :: "string set \<Rightarrow> Resource list \<Rightarrow> Resource list \<times> string set" where
  "unique_resources seen_urls [] = ([], seen_urls)"
| "unique_resources seen_urls (resource # rest) =
     (if url resource \<noteq> [] \<and> url resource \<notin> seen_urls
      then (case unique_resources (insert (url resource) seen_urls) rest of
              (us, seen') \<Rightarrow> (resource # us, seen'))
      else unique_resources seen_urls rest)"

fun remove_duplicates :: "string set \<Rightarrow> rdict \<Rightarrow> rdict" where
  "remove_duplicates seen_urls [] = []"
| "remove_duplicates seen_urls ((category, rs) # d) =
     (case unique_resources seen_urls rs of
        (us, seen') \<Rightarrow> (category, take 10 us) # remove_duplicates seen' d)"

text \<open>\<^verbatim>\<open>CareerService._find_resources_for_skills\<close>.\<close>

definition find_resources_for_skills ::
  "bool \<Rightarrow> 'w env \<Rightarrow> string list \<Rightarrow> 'w state \<Rightarrow> rdict \<times> 'w state" where
  "find_resources_for_skills web_searcher env skills st =
     (case skills_loop web_searcher env skills (resources_by_category_init, st) of
        (resources_by_category, st') \<Rightarrow> (remove_duplicates {} resources_by_category, st'))"

text \<open>
  The public \<^verbatim>\<open>CareerService.find_resources_for_skills\<close> maps \<^verbatim>\<open>to_dict\<close> over every
  bucket; the rendering of one resource is a parameter.
\<close>

definition find_resources_for_skills_public ::
  "(Resource \<Rightarrow> 'd) \<Rightarrow> bool \<Rightarrow> 'w env \<Rightarrow> string list \<Rightarrow> 'w state \<Rightarrow> (string \<times> 'd list) list \<times> 'w state" where
  "find_resources_for_skills_public to_dict web_searcher env skills st =
     (case find_resources_for_skills web_searcher env skills st of
        (resources, st') \<Rightarrow> (map (\<lambda>(k, v). (k, map to_dict v)) resources, st'))"

section \<open>The specification's wording, for comparison\<close>

text \<open>
  Section 4.6 of the specification describes the deduplicator as working on one
  category's sequence with its own running set; section 4.5 applies it per category and
  truncates to the cap. These two definitions follow that wording, not the source.
\<close>

fun spec_dedupe :: "string set \<Rightarrow> Resource list \<Rightarrow> Resource list" where
  "spec_dedupe seen [] = []"
| "spec_dedupe seen (c # cs) =
     (if url c = [] \<or> url c \<in> seen then spec_dedupe seen cs
      else c # spec_dedupe (insert (url c) seen) cs)"

definition spec_finalize :: "rdict \<Rightarrow> rdict" where
  "spec_finalize d = map (\<lambda>(k, cs). (k, take 10 (spec_dedupe {} cs))) d"

text \<open>
  An environment in which every failed read of the vector database is replaced by a
  successful read without hits; everything else is unchanged.
\<close>

definition failed_reads_as_empty :: "'w env \<Rightarrow> 'w env" where
  "failed_reads_as_empty env =
     env\<lparr>collection_query := (\<lambda>q n f w.
            case collection_query env q n f w of
              (Inl e, w') \<Rightarrow> (Inr [], w')
            | (Inr hits, w') \<Rightarrow> (Inr hits, w'))\<rparr>"

text \<open>The number of candidates the semantic store returns for a skill (line 225).\<close>

definition store_count :: "'w env \<Rightarrow> string \<Rightarrow> 'w \<Rightarrow> nat" where
  "store_count env sk w =
     (case store_lookup env sk w of
        ((courses, articles, projects, competitions), w4) \<Rightarrow>
          length courses + length articles + length projects + length competitions)"

section \<open>A concrete environment\<close>

text \<open>
  A small world for running the service: the store knows one course and one article on
  Docker, filed under the same address, and twelve courses on Python; of the web
  sources only the Stepik catalogue and the job board answer.
\<close>

definition docker_url :: string where
  "docker_url = ''https://example.org/docker''"

definition course_hit :: hit where
  "course_hit = Some [(''title'', ''Docker course''), (''url'', docker_url),
                      (''resource_type'', ''course''), (''skill'', ''docker'')]"

definition article_hit :: hit where
  "article_hit = Some [(''title'', ''Docker article''), (''url'', docker_url),
                       (''resource_type'', ''article''), (''skill'', ''docker'')]"

definition python_hit :: "nat \<Rightarrow> hit" where
  "python_hit i = Some [(''title'', ''Python''),
                        (''url'', ''https://example.org/python/'' @ replicate i CHR ''x''),
                        (''resource_type'', ''course''), (''skill'', ''python'')]"

definition docker_course :: Resource where
  "docker_course = \<lparr>title = ''Docker course'', url = docker_url, description = [],
                     resource_type = COURSE, skill = ''docker'', metadata = []\<rparr>"

definition docker_article :: Resource where
  "docker_article = \<lparr>title = ''Docker article'', url = docker_url, description = [],
                      resource_type = ARTICLE, skill = ''docker'', metadata = []\<rparr>"

definition stepik_course :: Resource where
  "stepik_course = \<lparr>title = ''Docker basics'', url = ''https://stepik.org/course/7'',
                     description = [], resource_type = COURSE, skill = ''docker'',
                     metadata = [(''source'', MStr ''stepik'')]\<rparr>"

definition habr_vacancy :: Resource where
  "habr_vacancy = \<lparr>title = ''DevOps engineer'', url = ''https://career.habr.com/vacancies/1'',
                    description = [], resource_type = VACANCY, skill = ''docker'',
                    metadata = [(''source'', MStr ''habr_career'')]\<rparr>"

definition stepik_page :: "node list" where
  "stepik_page =
     [Tag ''a'' [''course-card__title''] [(''href'', ''/course/7'')]
        [NavigableString ''Docker basics'']]"

definition vacancy_page :: "node list" where
  "vacancy_page =
     [Tag ''div'' [''vacancy-card__title''] []
        [Tag ''a'' [] [(''href'', ''/vacancies/1'')] [NavigableString ''DevOps engineer'']]]"

definition demo_env :: "unit env" where
  "demo_env =
     \<lparr>collection_query = (\<lambda>q n f w.
         if map_of f ''resource_type'' = Some ''course'' then
           (if q = ''python'' then (Inr (map python_hit [0..<12]), w)
            else (Inr [course_hit], w))
         else if map_of f ''resource_type'' = Some ''article'' then (Inr [article_hit], w)
         else (Inr [], w)),
      get_or_create_collection = (\<lambda>w. (None, w)),
      collection_add = (\<lambda>rs w. (None, w)),
      http_get_html = (\<lambda>u w.
         if u = ''https://stepik.org/catalog/search?query=docker'' then (Inr stepik_page, w)
         else if u = ''https://career.habr.com/vacancies?keywords=docker''
              then (Inr vacancy_page, w)
         else (Inl ClientError, w)),
      http_get_json = (\<lambda>u w. (Inl ClientError, w)),
      json_loads = (\<lambda>s. Inr []),
      fromisoformat = (\<lambda>s. Inr ())\<rparr>"

text \<open>The same world, but the store refuses every write.\<close>

definition demo_env_write_fails :: "unit env" where
  "demo_env_write_fails = demo_env\<lparr>collection_add := (\<lambda>rs w. (Some StoreError, w))\<rparr>"

text \<open>The same world, but the store fails on every read of articles.\<close>

definition demo_env_read_fails :: "unit env" where
  "demo_env_read_fails =
     demo_env\<lparr>collection_query := (\<lambda>q n f w.
        if map_of f ''resource_type'' = Some ''article'' then (Inl StoreError, w)
        else collection_query demo_env q n f w)\<rparr>"

definition st0 :: "unit state" where
  "st0 = \<lparr>world = (), fanouts = []\<rparr>"

section \<open>Properties of the deduplication and of the loop\<close>

lemma unique_resources_props:
  "unique_resources seen rs = (us, seen') \<Longrightarrow>
     subseq us rs \<and> distinct (map url us) \<and> url ` set us \<inter> seen = {} \<and>
     seen' = seen \<union> url ` set us \<and> [] \<notin> url ` set us"
proof (induction rs arbitrary: seen us seen')
  case Nil
  then show ?case by simp
next
  case (Cons r rs)
  show ?case
  proof (cases "url r \<noteq> [] \<and> url r \<notin> seen")
    case True
    obtain us' s' where rec: "unique_resources (insert (url r) seen) rs = (us', s')"
      by (cases "unique_resources (insert (url r) seen) rs")
    with True Cons.prems have eq: "us = r # us'" "seen' = s'" by auto
    from Cons.IH[OF rec] True eq show ?thesis by auto
  next
    case False
    with Cons.prems have "unique_resources seen rs = (us, seen')" by auto
    from Cons.IH[OF this] show ?thesis by auto
  qed
qed

lemma map_fst_dict_extend: "map fst (dict_extend d k xs) = map fst d"
  by (induction d) (auto simp: dict_extend_def)

lemma dict_get_dict_extend_other: "k' \<noteq> k \<Longrightarrow> dict_get (dict_extend d k xs) k' = dict_get d k'"
  by (induction d) (auto simp: dict_extend_def dict_get_def)

lemma map_fst_skill_iteration: "map fst (fst (skill_iteration web env sk (d, st))) = map fst d"
  by (simp add: skill_iteration_def map_fst_dict_extend split: prod.splits)

lemma map_fst_skills_loop: "map fst (fst (skills_loop web env skills acc)) = map fst (fst acc)"
proof (induction skills arbitrary: acc)
  case Nil
  show ?case by simp
next
  case (Cons sk skills)
  obtain d st where acc: "acc = (d, st)" by (cases acc)
  show ?case
    by (simp add: Cons.IH) (simp add: acc map_fst_skill_iteration)
qed

lemma vacancies_skill_iteration:
  "dict_get (fst (skill_iteration web env sk (d, st))) ''vacancies'' = dict_get d ''vacancies''"
  by (simp add: skill_iteration_def dict_get_dict_extend_other split: prod.splits)

lemma vacancies_skills_loop:
  "dict_get (fst (skills_loop web env skills acc)) ''vacancies'' = dict_get (fst acc) ''vacancies''"
proof (induction skills arbitrary: acc)
  case Nil
  show ?case by simp
next
  case (Cons sk skills)
  obtain d st where acc: "acc = (d, st)" by (cases acc)
  show ?case
    by (simp add: Cons.IH) (simp add: acc vacancies_skill_iteration)
qed

lemma map_fst_remove_duplicates: "map fst (remove_duplicates seen d) = map fst d"
  by (induction seen d rule: remove_duplicates.induct) (auto split: prod.splits)

lemma remove_duplicates_empty_bucket:
  "dict_get d k = [] \<Longrightarrow> k \<in> set (map fst d) \<Longrightarrow> dict_get (remove_duplicates seen d) k = []"
proof (induction seen d rule: remove_duplicates.induct)
  case (1 seen)
  then show ?case by simp
next
  case (2 seen category rs d)
  obtain us s' where u: "unique_resources seen rs = (us, s')"
    by (cases "unique_resources seen rs")
  show ?case
  proof (cases "category = k")
    case True
    with "2.prems" have "rs = []" by (simp add: dict_get_def)
    with u True show ?thesis by (simp add: dict_get_def)
  next
    case False
    with "2.prems" have "dict_get d k = []" "k \<in> set (map fst d)"
      by (auto simp: dict_get_def)
    from "2.IH"[OF u[symmetric] this] False u show ?thesis
      by (simp add: dict_get_def)
  qed
qed

lemma remove_duplicates_urls:
  "distinct (map url (concat (map snd (remove_duplicates seen d)))) \<and>
   url ` set (concat (map snd (remove_duplicates seen d))) \<inter> seen = {} \<and>
   [] \<notin> url ` set (concat (map snd (remove_duplicates seen d)))"
proof (induction seen d rule: remove_duplicates.induct)
  case (1 seen)
  show ?case by simp
next
  case (2 seen category rs d)
  obtain us s' where u: "unique_resources seen rs = (us, s')"
    by (cases "unique_resources seen rs")
  from unique_resources_props[OF u]
  have p: "distinct (map url us)" "url ` set us \<inter> seen = {}" "s' = seen \<union> url ` set us"
       "[] \<notin> url ` set us" by auto
  from "2.IH"[OF u[symmetric]]
  have ih: "distinct (map url (concat (map snd (remove_duplicates s' d))))"
           "url ` set (concat (map snd (remove_duplicates s' d))) \<inter> s' = {}"
           "[] \<notin> url ` set (concat (map snd (remove_duplicates s' d)))" by auto
  have t1: "distinct (map url (take 10 us))"
    using p(1) by (simp add: distinct_take take_map[symmetric] del: take_map)
  have t2: "set (take 10 us) \<subseteq> set us" by (rule set_take_subset)
  have d1: "url ` set (take 10 us) \<inter> url ` set (concat (map snd (remove_duplicates s' d))) = {}"
    using ih(2) p(3) t2 by blast
  have d2: "url ` set (take 10 us) \<inter> seen = {}" using p(2) t2 by blast
  have d3: "url ` set (concat (map snd (remove_duplicates s' d))) \<inter> seen = {}"
    using ih(2) p(3) by blast
  have d4: "[] \<notin> url ` set (take 10 us)" using p(4) t2 by blast
  show ?case
    using u t1 ih(1) ih(3) d1 d2 d3 d4 by (simp add: image_Un Int_Un_distrib2) 
qed

lemma remove_duplicates_bucket:
  "distinct (map fst d) \<Longrightarrow> (k, rs) \<in> set (remove_duplicates seen d) \<Longrightarrow>
     \<exists>seen'. rs = take 10 (fst (unique_resources seen' (dict_get d k)))"
proof (induction seen d rule: remove_duplicates.induct)
  case (1 seen)
  then show ?case by simp
next
  case (2 seen category rs0 d)
  obtain us s' where u: "unique_resources seen rs0 = (us, s')"
    by (cases "unique_resources seen rs0")
  from "2.prems"(2) u have "(k, rs) = (category, take 10 us) \<or> (k, rs) \<in> set (remove_duplicates s' d)"
    by simp
  then show ?case
  proof
    assume "(k, rs) = (category, take 10 us)"
    then have "rs = take 10 (fst (unique_resources seen (dict_get ((category, rs0) # d) k)))"
      using u by (simp add: dict_get_def)
    then show ?thesis by blast
  next
    assume mem: "(k, rs) \<in> set (remove_duplicates s' d)"
    then have "k \<in> set (map fst (remove_duplicates s' d))" by force
    then have "k \<in> set (map fst d)" by (simp only: map_fst_remove_duplicates)
    with "2.prems"(1) have ne: "category \<noteq> k" by auto
    from "2.prems"(1) have "distinct (map fst d)" by simp
    from "2.IH"[OF u[symmetric] this mem] obtain seen' where
      "rs = take 10 (fst (unique_resources seen' (dict_get d k)))" by blast
    with ne have "rs = take 10 (fst (unique_resources seen' (dict_get ((category, rs0) # d) k)))"
      by (simp add: dict_get_def)
    then show ?thesis by blast
  qed
qed

lemma take_unique_subseq: "subseq (take n (fst (unique_resources seen rs))) rs"
proof -
  obtain us s' where u: "unique_resources seen rs = (us, s')"
    by (cases "unique_resources seen rs")
  from unique_resources_props[OF u] have "subseq us rs" by simp
  moreover have "subseq (take n us) us" using take_is_prefix by blast
  ultimately have "subseq (take n us) rs" using subseq_order.trans by blast
  with u show ?thesis by simp
qed

lemma skills_loop_append:
  "skills_loop web env (xs @ ys) acc = skills_loop web env ys (skills_loop web env xs acc)"
  by (induction xs arbitrary: acc) simp_all

lemma fanouts_find_resources_for_skill:
  "fanouts (snd (find_resources_for_skill env sk st)) = fanouts st @ [sk]"
  by (simp add: find_resources_for_skill_def Let_def split: prod.splits sum.splits)

lemma fanouts_skill_resources:
  "fanouts (snd (skill_resources web env sk st)) =
     fanouts st @ (if store_count env sk (world st) < 5 \<and> web then [sk] else [])"
proof -
  obtain c a p k w4 where sl: "store_lookup env sk (world st) = ((c, a, p, k), w4)"
    by (cases "store_lookup env sk (world st)") auto
  have f: "fanouts (snd (find_resources_for_skill env sk (st\<lparr>world := w4\<rparr>))) = fanouts st @ [sk]"
    by (simp add: fanouts_find_resources_for_skill)
  show ?thesis
  proof (cases "length c + length a + length p + length k < 5 \<and> web")
    case True
    obtain r st' where fr: "find_resources_for_skill env sk (st\<lparr>world := w4\<rparr>) = (r, st')"
      by (cases "find_resources_for_skill env sk (st\<lparr>world := w4\<rparr>)")
    with f have "fanouts st' = fanouts st @ [sk]" by simp
    with True sl fr show ?thesis
      by (cases r) (simp_all add: skill_resources_def store_count_def)
  next
    case False
    with sl show ?thesis
      by (auto simp add: skill_resources_def store_count_def)
  qed
qed

lemma snd_skill_iteration:
  "snd (skill_iteration web env sk (d, st)) = snd (skill_resources web env sk st)"
  by (simp add: skill_iteration_def split: prod.splits)

lemma snd_find_resources_for_skills:
  "snd (find_resources_for_skills web env skills st) =
     snd (skills_loop web env skills (resources_by_category_init, st))"
  by (simp add: find_resources_for_skills_def split: prod.splits)

lemma fst_find_resources_for_skills:
  "fst (find_resources_for_skills web env skills st) =
     remove_duplicates {} (fst (skills_loop web env skills (resources_by_category_init, st)))"
  by (simp add: find_resources_for_skills_def split: prod.splits)

lemma fanouts_next_skill:
  assumes "i < length skills"
  shows "fanouts (snd (find_resources_for_skills web env (take (Suc i) skills) st)) =
         fanouts (snd (find_resources_for_skills web env (take i skills) st)) @
           (if store_count env (skills ! i)
                 (world (snd (find_resources_for_skills web env (take i skills) st))) < 5 \<and> web
            then [skills ! i] else [])"
proof -
  obtain d s where acc: "skills_loop web env (take i skills) (resources_by_category_init, st) = (d, s)"
    by (cases "skills_loop web env (take i skills) (resources_by_category_init, st)")
  from assms have "take (Suc i) skills = take i skills @ [skills ! i]"
    by (simp add: take_Suc_conv_app_nth)
  then have "skills_loop web env (take (Suc i) skills) (resources_by_category_init, st) =
             skill_iteration web env (skills ! i) (d, s)"
    by (simp add: skills_loop_append acc)
  then show ?thesis
    by (simp add: snd_find_resources_for_skills acc snd_skill_iteration fanouts_skill_resources)
qed

lemma search_failed_reads_as_empty:
  "search (failed_reads_as_empty env) q n f w = search env q n f w"
  by (simp add: search_def failed_reads_as_empty_def split: prod.splits sum.splits)

lemma metadata_to_resource_failed_reads_as_empty:
  "metadata_to_resource (failed_reads_as_empty env) h = metadata_to_resource env h"
  by (simp add: metadata_to_resource_def failed_reads_as_empty_def split: option.splits)

lemma search_by_skill_failed_reads_as_empty:
  "search_by_skill (failed_reads_as_empty env) sk rt n w = search_by_skill env sk rt n w"
  by (simp add: search_by_skill_def search_failed_reads_as_empty
        metadata_to_resource_failed_reads_as_empty)

lemma store_lookup_failed_reads_as_empty:
  "store_lookup (failed_reads_as_empty env) sk w = store_lookup env sk w"
  by (simp add: store_lookup_def search_by_skill_failed_reads_as_empty)

lemma save_batch_failed_reads_as_empty:
  "save_batch (failed_reads_as_empty env) rs w = save_batch env rs w"
  by (simp add: save_batch_def add_documents_def create_collection_if_not_exists_def
        create_collection_def failed_reads_as_empty_def)

lemma fetch_responses_failed_reads_as_empty:
  "fetch_responses (failed_reads_as_empty env) sk w = fetch_responses env sk w"
  by (simp add: fetch_responses_def fetch_text_def fetch_github_def failed_reads_as_empty_def)

lemma find_resources_for_skill_failed_reads_as_empty:
  "find_resources_for_skill (failed_reads_as_empty env) sk st = find_resources_for_skill env sk st"
  unfolding find_resources_for_skill_def save_batch_failed_reads_as_empty
    fetch_responses_failed_reads_as_empty
  by (rule refl)

lemma skill_iteration_failed_reads_as_empty:
  "skill_iteration web (failed_reads_as_empty env) sk acc = skill_iteration web env sk acc"
  unfolding skill_iteration_def skill_resources_def store_lookup_failed_reads_as_empty
    find_resources_for_skill_failed_reads_as_empty
  by (rule refl)

lemma skills_loop_failed_reads_as_empty:
  "skills_loop web (failed_reads_as_empty env) skills acc = skills_loop web env skills acc"
  by (induction skills arbitrary: acc) (simp_all add: skill_iteration_failed_reads_as_empty)

lemma search_by_skill_on_failure:
  assumes "fst (collection_query env sk n ((''skill'', sk) # (if rt \<noteq> [] then [(''resource_type'', rt)] else [])) w) = Inl e"
  shows "fst (search_by_skill env sk rt n w) = []"
proof -
  obtain w' where "collection_query env sk n ((''skill'', sk) # (if rt \<noteq> [] then [(''resource_type'', rt)] else [])) w = (Inl e, w')"
    using assms by (cases "collection_query env sk n ((''skill'', sk) # (if rt \<noteq> [] then [(''resource_type'', rt)] else [])) w") auto
  then show ?thesis
    by (simp add: search_by_skill_def search_def)
qed

lemma distinct_bucket_of_concat:
  "distinct (map f (concat (map snd R))) \<Longrightarrow> (k, rs) \<in> set R \<Longrightarrow> distinct (map f rs)"
  by (induction R) auto

lemma keys_find_resources_for_skills:
  "map fst (fst (find_resources_for_skills web env skills st)) =
     [''courses'', ''articles'', ''vacancies'', ''projects'', ''competitions'']"
  by (simp add: fst_find_resources_for_skills map_fst_remove_duplicates map_fst_skills_loop
        resources_by_category_init_def)

lemma vacancies_gathered:
  "dict_get (fst (skills_loop web env skills (resources_by_category_init, st))) ''vacancies'' = []"
  by (simp add: vacancies_skills_loop) (simp add: dict_get_def resources_by_category_init_def)

lemma vacancies_find_resources_for_skills:
  "dict_get (fst (find_resources_for_skills web env skills st)) ''vacancies'' = []"
proof -
  have "''vacancies'' \<in> set (map fst (fst (skills_loop web env skills (resources_by_category_init, st))))"
    by (simp only: map_fst_skills_loop) (simp add: resources_by_category_init_def)
  from remove_duplicates_empty_bucket [OF vacancies_gathered this] show ?thesis
    by (simp only: fst_find_resources_for_skills)
qed

lemma keys_gathered:
  "map fst (fst (skills_loop web env skills (resources_by_category_init, st))) =
     [''courses'', ''articles'', ''vacancies'', ''projects'', ''competitions'']"
  by (simp only: map_fst_skills_loop) (simp add: resources_by_category_init_def)

section \<open>The claims\<close>

subsection \<open>Shape of the result\<close>

text \<open>
  C9. For every list of skills, the empty one included, the aggregation returns a
  dictionary whose keys are the five categories, each with a list; for the empty list of
  skills every bucket is empty. The model of the call has no error result: every
  exception of a collaborator is caught below it.
\<close>

theorem structurally_complete_result:
  "map fst (fst (find_resources_for_skills web env skills st)) =
     [''courses'', ''articles'', ''vacancies'', ''projects'', ''competitions''] \<and>
   fst (find_resources_for_skills web env [] st) =
     [(''courses'', []), (''articles'', []), (''vacancies'', []), (''projects'', []),
      (''competitions'', [])]"
proof
  show "map fst (fst (find_resources_for_skills web env skills st)) =
     [''courses'', ''articles'', ''vacancies'', ''projects'', ''competitions'']"
    by (rule keys_find_resources_for_skills)
  show "fst (find_resources_for_skills web env [] st) =
     [(''courses'', []), (''articles'', []), (''vacancies'', []), (''projects'', []),
      (''competitions'', [])]"
    by (simp add: find_resources_for_skills_def resources_by_category_init_def)
qed

text \<open>The same on the concrete environment.\<close>

theorem structurally_complete_result_witness:
  "map fst (fst (find_resources_for_skills True demo_env [''docker''] st0)) =
     [''courses'', ''articles'', ''vacancies'', ''projects'', ''competitions''] \<and>
   fst (find_resources_for_skills True demo_env [] st0) =
     [(''courses'', []), (''articles'', []), (''vacancies'', []), (''projects'', []),
      (''competitions'', [])]"
  using structurally_complete_result [of True demo_env "[''docker'']" st0] by simp

text \<open>
  C10. The bucket of vacancies of the aggregated result is empty for every list of
  skills: the loop never extends it, although the web searcher fetches and parses
  vacancies. The public method renders each bucket and keeps it empty.
\<close>

theorem vacancies_bucket_always_empty:
  "dict_get (fst (find_resources_for_skills web env skills st)) ''vacancies'' = [] \<and>
   map_of (fst (find_resources_for_skills_public to_dict web env skills st)) ''vacancies'' = Some []"
proof
  show v: "dict_get (fst (find_resources_for_skills web env skills st)) ''vacancies'' = []"
    by (rule vacancies_find_resources_for_skills)
  have k: "''vacancies'' \<in> set (map fst (fst (find_resources_for_skills web env skills st)))"
    by (simp only: keys_find_resources_for_skills) simp
  then obtain rs where m: "map_of (fst (find_resources_for_skills web env skills st)) ''vacancies'' = Some rs"
    by (metis map_of_eq_None_iff not_Some_eq set_map)
  with v have "rs = []" by (simp add: dict_get_def)
  with m have "map_of (map (\<lambda>(k, v). (k, map to_dict v)) (fst (find_resources_for_skills web env skills st))) ''vacancies'' = Some []"
    by (simp add: map_of_map)
  then show "map_of (fst (find_resources_for_skills_public to_dict web env skills st)) ''vacancies'' = Some []"
    by (cases "find_resources_for_skills web env skills st")
       (simp add: find_resources_for_skills_public_def)
qed

text \<open>
  On the concrete environment the web searcher does return a vacancy for the skill, and
  the aggregated result has none.
\<close>

theorem vacancies_bucket_always_empty_witness:
  "dict_get (case fst (find_resources_for_skill demo_env ''docker'' st0) of Inr d \<Rightarrow> d | Inl e \<Rightarrow> [])
     ''vacancies'' = [habr_vacancy] \<and>
   dict_get (fst (find_resources_for_skills True demo_env [''docker''] st0)) ''vacancies'' = []"
proof -
  have "dict_get (case fst (find_resources_for_skill demo_env ''docker'' st0) of Inr d \<Rightarrow> d | Inl e \<Rightarrow> [])
     ''vacancies'' = [habr_vacancy]"
    by code_simp
  moreover have "dict_get (fst (find_resources_for_skills True demo_env [''docker''] st0)) ''vacancies'' = []"
    using vacancies_bucket_always_empty [where web = True and env = demo_env
        and skills = "[''docker'']" and st = st0 and to_dict = title]
    by (rule conjunct1)
  ultimately show ?thesis by (rule conjI)
qed

subsection \<open>The parsers\<close>

text \<open>
  C5. The claim is that no parser lets a failure out, whatever sub-element or attribute
  is missing. The parsers guard against a missing tag, not against a missing attribute:
  an anchor of the Stepik catalogue without \<^verbatim>\<open>href\<close>, and a vacancy card whose anchor
  has none, end the parser with KeyError.
\<close>

theorem stepik_parser_raises_on_missing_href:
  "parse_courses_from_stepik
     [Tag ''a'' [''course-card__title''] [] [NavigableString ''Python'']] = Inl KeyError \<and>
   parse_vacancies_from_habr
     [Tag ''div'' [''vacancy-card__title''] [] [Tag ''a'' [] [] [NavigableString ''Developer'']]]
     = Inl KeyError"
  by code_simp

text \<open>
  C6. The claim is that both course parsers emit a candidate only for an entry with a
  non-empty title. The Coursera parser tests the title; the Stepik parser has no such
  test and emits a candidate whose title is empty.
\<close>

theorem stepik_parser_emits_empty_title:
  "parse_courses_from_stepik [Tag ''a'' [''course-card__title''] [(''href'', ''/course/1'')] []] =
     Inr [new_resource [] ''https://stepik.org/course/1'' COURSE ''stepik''] \<and>
   parse_courses_from_coursera
     [Tag ''a'' [] [(''href'', ''/learn/1'')] [Tag ''h2'' [''card-title''] [] []]] = Inr []"
  by code_simp

subsection \<open>The search for one skill\<close>

text \<open>
  C2. Threshold gating, for the skill at every position \<open>i\<close> of a call. The state in
  which the loop reaches that skill is the state a call on the first \<open>i\<close> skills ends in.
  If the store returns five candidates or more over the four categories, the list of
  started fan-outs is unchanged by the iteration; if it returns fewer than five and the
  service has a web searcher, the fan-out is started for exactly that skill.
\<close>

theorem threshold_gating:
  assumes "i < length skills"
  shows "(5 \<le> store_count env (skills ! i)
                (world (snd (find_resources_for_skills web env (take i skills) st))) \<longrightarrow>
            fanouts (snd (find_resources_for_skills web env (take (Suc i) skills) st)) =
            fanouts (snd (find_resources_for_skills web env (take i skills) st))) \<and>
         (store_count env (skills ! i)
                (world (snd (find_resources_for_skills web env (take i skills) st))) < 5 \<and> web \<longrightarrow>
            fanouts (snd (find_resources_for_skills web env (take (Suc i) skills) st)) =
            fanouts (snd (find_resources_for_skills web env (take i skills) st)) @ [skills ! i])"
  using fanouts_next_skill [OF assms, of web env st] by auto

text \<open>
  On the concrete environment the store has thirteen candidates for the first skill and
  two for the second: only the second starts a fan-out.
\<close>

theorem threshold_gating_witness:
  "5 \<le> store_count demo_env ''python'' (world st0) \<and>
   fanouts (snd (find_resources_for_skills True demo_env [''python''] st0)) = [] \<and>
   store_count demo_env ''docker''
     (world (snd (find_resources_for_skills True demo_env [''python''] st0))) < 5 \<and>
   fanouts (snd (find_resources_for_skills True demo_env [''python'', ''docker''] st0)) = [''docker'']"
proof -
  let ?skills = "[''python'', ''docker'']"
  have s0: "snd (find_resources_for_skills True demo_env [] st0) = st0"
    by (simp add: find_resources_for_skills_def)
  have h0: "5 \<le> store_count demo_env (?skills ! 0)
               (world (snd (find_resources_for_skills True demo_env (take 0 ?skills) st0)))"
    by code_simp
  have h1: "store_count demo_env (?skills ! 1)
               (world (snd (find_resources_for_skills True demo_env (take 1 ?skills) st0))) < 5 \<and> True"
    by code_simp
  have a0: "0 < length ?skills" and a1: "1 < length ?skills" by simp_all
  from threshold_gating [OF a0, of demo_env True st0] h0
  have c0: "fanouts (snd (find_resources_for_skills True demo_env (take (Suc 0) ?skills) st0)) =
            fanouts (snd (find_resources_for_skills True demo_env (take 0 ?skills) st0))"
    by blast
  from threshold_gating [OF a1, of demo_env True st0] h1
  have c1: "fanouts (snd (find_resources_for_skills True demo_env (take (Suc 1) ?skills) st0)) =
            fanouts (snd (find_resources_for_skills True demo_env (take 1 ?skills) st0)) @ [?skills ! 1]"
    by blast
  have f0: "fanouts st0 = []" by (simp add: st0_def)
  from c0 have r0: "fanouts (snd (find_resources_for_skills True demo_env [''python''] st0)) = []"
    by (simp add: s0 f0)
  from c1 r0 have r1: "fanouts (snd (find_resources_for_skills True demo_env ?skills st0)) = [''docker'']"
    by (simp add: numeral_2_eq_2)
  from h0 have g0: "5 \<le> store_count demo_env ''python'' (world st0)" by (simp add: s0)
  from h1 have g1: "store_count demo_env ''docker''
     (world (snd (find_resources_for_skills True demo_env [''python''] st0))) < 5" by simp
  from g0 r0 g1 r1 show ?thesis by blast
qed

text \<open>
  C3. A failed read of the semantic store for one category gives the empty list for that
  category, and nothing else changes: the whole aggregation, with its other reads, its
  web searches, its final state and its result, is the one of an environment in which
  every failed read had succeeded without hits. No failure reaches the caller. The
  handler is the one of \<^verbatim>\<open>ChromaVectorStore.search\<close>.
\<close>

theorem store_read_failure_isolated:
  "(fst (collection_query env sk 5
           [(''skill'', sk), (''resource_type'', ResourceType_value rt)] w) = Inl e \<longrightarrow>
      fst (search_by_skill env sk (ResourceType_value rt) 5 w) = []) \<and>
   find_resources_for_skills web env skills st =
     find_resources_for_skills web (failed_reads_as_empty env) skills st"
proof
  have ne: "ResourceType_value rt \<noteq> []" by (cases rt) simp_all
  show "fst (collection_query env sk 5
           [(''skill'', sk), (''resource_type'', ResourceType_value rt)] w) = Inl e \<longrightarrow>
      fst (search_by_skill env sk (ResourceType_value rt) 5 w) = []"
    using search_by_skill_on_failure [of env sk 5 "ResourceType_value rt" w e] ne by simp
  show "find_resources_for_skills web env skills st =
     find_resources_for_skills web (failed_reads_as_empty env) skills st"
    by (simp add: find_resources_for_skills_def skills_loop_failed_reads_as_empty)
qed

text \<open>
  On the concrete environment whose article reads fail, the stored course and the course
  found on the web are both in the result, and the web fan-out was started.
\<close>

theorem store_read_failure_isolated_witness:
  "fst (collection_query demo_env_read_fails ''docker'' 5
          [(''skill'', ''docker''), (''resource_type'', ResourceType_value ARTICLE)] ()) = Inl StoreError \<and>
   fst (search_by_skill demo_env_read_fails ''docker'' (ResourceType_value ARTICLE) 5 ()) = [] \<and>
   find_resources_for_skills True demo_env_read_fails [''docker''] st0 =
     find_resources_for_skills True (failed_reads_as_empty demo_env_read_fails) [''docker''] st0 \<and>
   find_resources_for_skills True demo_env_read_fails [''docker''] st0 =
     ([(''courses'', [docker_course, stepik_course]), (''articles'', []), (''vacancies'', []),
       (''projects'', []), (''competitions'', [])], \<lparr>world = (), fanouts = [''docker'']\<rparr>)"
proof -
  have h: "fst (collection_query demo_env_read_fails ''docker'' 5
          [(''skill'', ''docker''), (''resource_type'', ResourceType_value ARTICLE)] ()) = Inl StoreError"
    by code_simp
  have r: "find_resources_for_skills True demo_env_read_fails [''docker''] st0 =
     ([(''courses'', [docker_course, stepik_course]), (''articles'', []), (''vacancies'', []),
       (''projects'', []), (''competitions'', [])], \<lparr>world = (), fanouts = [''docker'']\<rparr>)"
    by code_simp
  from store_read_failure_isolated [of demo_env_read_fails "''docker''" ARTICLE "()" StoreError
      True "[''docker'']" st0] h r
  show ?thesis by blast
qed

text \<open>
  C7. For one skill, each of the four merged lists is the list read from the store
  followed by the list of that category in the web searcher's answer (nothing, when the
  web search was not made or raised): every candidate of the store precedes every
  candidate of the web.
\<close>

theorem store_candidates_precede_web_candidates:
  assumes "store_lookup env sk (world st) = ((c, a, p, k), w4)"
  shows "\<exists>wd. fst (skill_resources web env sk st) =
            (c @ dict_get wd ''courses'', a @ dict_get wd ''articles'',
             p @ dict_get wd ''projects'', k @ dict_get wd ''competitions'') \<and>
          (wd = [] \<or> (web \<and> fst (find_resources_for_skill env sk (st\<lparr>world := w4\<rparr>)) = Inr wd))"
proof (cases "length c + length a + length p + length k < 5 \<and> web")
  case True
  obtain r st' where fr: "find_resources_for_skill env sk (st\<lparr>world := w4\<rparr>) = (r, st')"
    by (cases "find_resources_for_skill env sk (st\<lparr>world := w4\<rparr>)")
  show ?thesis
  proof (cases r)
    case (Inl e)
    with True assms fr have "fst (skill_resources web env sk st) = (c, a, p, k)"
      by (simp add: skill_resources_def)
    then show ?thesis by (intro exI[of _ "[]"]) (simp add: dict_get_def)
  next
    case (Inr wd)
    with True assms fr show ?thesis
      by (intro exI[of _ wd]) (simp add: skill_resources_def)
  qed
next
  case False
  with assms have "fst (skill_resources web env sk st) = (c, a, p, k)"
    by (auto simp add: skill_resources_def)
  then show ?thesis by (intro exI[of _ "[]"]) (simp add: dict_get_def)
qed

text \<open>On the concrete environment the stored course precedes the course found on the web.\<close>

theorem store_candidates_precede_web_candidates_witness:
  "store_lookup demo_env ''docker'' (world st0) = (([docker_course], [docker_article], [], []), ()) \<and>
   fst (find_resources_for_skill demo_env ''docker'' (st0\<lparr>world := ()\<rparr>)) =
     Inr [(''courses'', [stepik_course]), (''articles'', []), (''vacancies'', [habr_vacancy]),
          (''projects'', []), (''competitions'', [])] \<and>
   fst (skill_resources True demo_env ''docker'' st0) =
     ([docker_course] @ [stepik_course], [docker_article] @ [], [] @ [], [] @ [])"
proof -
  have sl: "store_lookup demo_env ''docker'' (world st0) =
              (([docker_course], [docker_article], [], []), ())"
    by code_simp
  have fr: "fst (find_resources_for_skill demo_env ''docker'' (st0\<lparr>world := ()\<rparr>)) =
     Inr [(''courses'', [stepik_course]), (''articles'', []), (''vacancies'', [habr_vacancy]),
          (''projects'', []), (''competitions'', [])]"
    by code_simp
  have sr: "fst (skill_resources True demo_env ''docker'' st0) \<noteq>
              ([docker_course], [docker_article], [], [])"
    by code_simp
  from store_candidates_precede_web_candidates [OF sl, of True] obtain wd where
    eq: "fst (skill_resources True demo_env ''docker'' st0) =
            ([docker_course] @ dict_get wd ''courses'', [docker_article] @ dict_get wd ''articles'',
             [] @ dict_get wd ''projects'', [] @ dict_get wd ''competitions'')"
    and wd: "wd = [] \<or> (True \<and> fst (find_resources_for_skill demo_env ''docker'' (st0\<lparr>world := ()\<rparr>)) = Inr wd)"
    by blast
  from eq sr have "wd \<noteq> []" by (auto simp: dict_get_def)
  with wd fr have "wd = [(''courses'', [stepik_course]), (''articles'', []),
      (''vacancies'', [habr_vacancy]), (''projects'', []), (''competitions'', [])]"
    by simp
  with eq have "fst (skill_resources True demo_env ''docker'' st0) =
     ([docker_course] @ [stepik_course], [docker_article] @ [], [] @ [], [] @ [])"
    by (simp add: dict_get_def)
  with sl fr show ?thesis by blast
qed

text \<open>
  C4, as amended. When \<^verbatim>\<open>save_batch\<close> fails after the web search of a skill produced
  candidates, \<^verbatim>\<open>find_resources_for_skill\<close> raises; the service catches the exception, so
  nothing reaches the caller, and the skill contributes the candidates of the store
  only: its candidates from the web are discarded.
\<close>

theorem store_write_failure_drops_web_candidates:
  assumes sl: "store_lookup env sk (world st) = ((c, a, p, k), w4)"
      and few: "length c + length a + length p + length k < 5"
      and fr: "fetch_responses env sk w4 = (resp, w6)"
      and pr: "parse_responses resp = Inr (c0, a0, v0, p0, k0)"
      and ne: "c0 @ a0 @ v0 @ p0 @ k0 \<noteq> []"
      and sb: "fst (save_batch env (stamp sk c0 @ stamp sk a0 @ stamp sk v0 @ stamp sk p0 @ stamp sk k0) w6) = Inl e"
  shows "fst (find_resources_for_skill env sk (st\<lparr>world := w4\<rparr>)) = Inl e \<and>
         fst (skill_resources True env sk st) = (c, a, p, k)"
proof -
  obtain w' where sb': "save_batch env (stamp sk c0 @ stamp sk a0 @ stamp sk v0 @ stamp sk p0 @ stamp sk k0) w6 = (Inl e, w')"
    using sb by (cases "save_batch env (stamp sk c0 @ stamp sk a0 @ stamp sk v0 @ stamp sk p0 @ stamp sk k0) w6") auto
  from ne have ne': "stamp sk c0 \<noteq> [] \<or> stamp sk a0 \<noteq> [] \<or> stamp sk v0 \<noteq> [] \<or> stamp sk p0 \<noteq> [] \<or> stamp sk k0 \<noteq> []"
    by (auto simp: stamp_def)
  have f: "fst (find_resources_for_skill env sk (st\<lparr>world := w4\<rparr>)) = Inl e"
    using fr pr ne' sb' by (auto simp add: find_resources_for_skill_def Let_def)
  then obtain st' where "find_resources_for_skill env sk (st\<lparr>world := w4\<rparr>) = (Inl e, st')"
    by (cases "find_resources_for_skill env sk (st\<lparr>world := w4\<rparr>)") auto
  with sl few have "fst (skill_resources True env sk st) = (c, a, p, k)"
    by (simp add: skill_resources_def)
  with f show ?thesis by simp
qed

text \<open>The same on the concrete environment whose store refuses every write.\<close>

theorem store_write_failure_drops_web_candidates_witness:
  "fst (find_resources_for_skill demo_env_write_fails ''docker'' (st0\<lparr>world := ()\<rparr>)) = Inl StoreError \<and>
   fst (skill_resources True demo_env_write_fails ''docker'' st0) =
     ([docker_course], [docker_article], [], [])"
proof -
  have sl: "store_lookup demo_env_write_fails ''docker'' (world st0) =
              (([docker_course], [docker_article], [], []), ())"
    by code_simp
  have few: "length [docker_course] + length [docker_article] + length ([]::Resource list)
               + length ([]::Resource list) < 5"
    by simp
  have fr: "fetch_responses demo_env_write_fails ''docker'' () =
              (\<lparr>coursera_html = [], stepik_html = stepik_page, habr_articles_html = [],
                habr_vacancies_html = vacancy_page, github_data = None, kaggle_html = []\<rparr>, ())"
    by code_simp
  have pr: "parse_responses \<lparr>coursera_html = [], stepik_html = stepik_page, habr_articles_html = [],
                habr_vacancies_html = vacancy_page, github_data = None, kaggle_html = []\<rparr> =
              Inr ([stepik_course\<lparr>skill := []\<rparr>], [], [habr_vacancy\<lparr>skill := []\<rparr>], [], [])"
    by code_simp
  have ne: "[stepik_course\<lparr>skill := []\<rparr>] @ [] @ [habr_vacancy\<lparr>skill := []\<rparr>] @ [] @ [] \<noteq> []"
    by simp
  have sb: "fst (save_batch demo_env_write_fails
              (stamp ''docker'' [stepik_course\<lparr>skill := []\<rparr>] @ stamp ''docker'' [] @
               stamp ''docker'' [habr_vacancy\<lparr>skill := []\<rparr>] @ stamp ''docker'' [] @
               stamp ''docker'' []) ()) = Inl StoreError"
    by code_simp
  from store_write_failure_drops_web_candidates [OF sl few fr pr ne sb] show ?thesis .
qed

text \<open>
  The claim as it was stated fails: two environments that differ only in whether the
  write succeeds give different results, the course found on the web being absent when
  the write fails.
\<close>

theorem store_write_failure_counterexample:
  "fst (find_resources_for_skills True demo_env [''docker''] st0) =
     [(''courses'', [docker_course, stepik_course]), (''articles'', []), (''vacancies'', []),
      (''projects'', []), (''competitions'', [])] \<and>
   fst (find_resources_for_skills True demo_env_write_fails [''docker''] st0) =
     [(''courses'', [docker_course]), (''articles'', []), (''vacancies'', []),
      (''projects'', []), (''competitions'', [])] \<and>
   stepik_course \<noteq> docker_course"
  by code_simp

subsection \<open>Deduplication and cap\<close>

text \<open>
  C1, as amended. The set of seen addresses is shared by all categories, which are
  processed in the order of the dictionary. In the result no two candidates share an
  address, whether they stand in the same bucket or in two different ones, and no
  candidate has an empty address.
\<close>

theorem dedup_one_seen_set_for_all_categories:
  "(\<forall>k rs. (k, rs) \<in> set (fst (find_resources_for_skills web env skills st)) \<longrightarrow>
        distinct (map url rs) \<and> [] \<notin> url ` set rs) \<and>
   distinct (map url (concat (map snd (fst (find_resources_for_skills web env skills st)))))"
proof -
  let ?R = "fst (find_resources_for_skills web env skills st)"
  let ?G = "fst (skills_loop web env skills (resources_by_category_init, st))"
  have R: "?R = remove_duplicates {} ?G" by (rule fst_find_resources_for_skills)
  have d: "distinct (map url (concat (map snd ?R)))"
    unfolding R using remove_duplicates_urls [of "{}" ?G] by blast
  have e: "[] \<notin> url ` set (concat (map snd ?R))"
    unfolding R using remove_duplicates_urls [of "{}" ?G] by blast
  have "distinct (map url rs) \<and> [] \<notin> url ` set rs" if m: "(k, rs) \<in> set ?R" for k rs
  proof
    from d m show "distinct (map url rs)" by (rule distinct_bucket_of_concat)
    from m have "set rs \<subseteq> set (concat (map snd ?R))" by force
    with e show "[] \<notin> url ` set rs" by blast
  qed
  with d show ?thesis by blast
qed

text \<open>The same on the concrete environment.\<close>

theorem dedup_one_seen_set_for_all_categories_witness:
  "(''courses'', [docker_course, stepik_course])
      \<in> set (fst (find_resources_for_skills True demo_env [''docker''] st0)) \<and>
   distinct (map url [docker_course, stepik_course]) \<and>
   [] \<notin> url ` set [docker_course, stepik_course] \<and>
   distinct (map url (concat (map snd (fst (find_resources_for_skills True demo_env [''docker''] st0)))))"
proof -
  have m: "(''courses'', [docker_course, stepik_course])
      \<in> set (fst (find_resources_for_skills True demo_env [''docker''] st0))"
    by code_simp
  from dedup_one_seen_set_for_all_categories [of True demo_env "[''docker'']" st0] m
  show ?thesis by blast
qed

text \<open>
  The claim as it was stated fails: the only article gathered for the skill has the
  address of the gathered course. Deduplication of the articles alone, as the
  specification words it, keeps the article; the service drops it.
\<close>

theorem dedup_crosses_categories_counterexample:
  "dict_get (fst (skills_loop False demo_env [''docker''] (resources_by_category_init, st0)))
     ''courses'' = [docker_course] \<and>
   dict_get (fst (skills_loop False demo_env [''docker''] (resources_by_category_init, st0)))
     ''articles'' = [docker_article] \<and>
   url docker_article = url docker_course \<and> url docker_article \<noteq> [] \<and>
   dict_get (spec_finalize
     (fst (skills_loop False demo_env [''docker''] (resources_by_category_init, st0))))
     ''articles'' = [docker_article] \<and>
   dict_get (fst (find_resources_for_skills False demo_env [''docker''] st0)) ''articles'' = []"
  by code_simp

text \<open>
  C8. Every bucket of the result has at most ten candidates; it is a prefix of length
  at most ten of the deduplicated sequence of its category, hence a subsequence of the
  sequence gathered for the category, in the same order.
\<close>

theorem cap_invariant:
  "\<forall>k rs. (k, rs) \<in> set (fst (find_resources_for_skills web env skills st)) \<longrightarrow>
      length rs \<le> 10 \<and>
      subseq rs (dict_get (fst (skills_loop web env skills (resources_by_category_init, st))) k) \<and>
      (\<exists>seen. rs = take 10 (fst (unique_resources seen
          (dict_get (fst (skills_loop web env skills (resources_by_category_init, st))) k))))"
proof (intro allI impI)
  fix k rs
  let ?G = "fst (skills_loop web env skills (resources_by_category_init, st))"
  assume "(k, rs) \<in> set (fst (find_resources_for_skills web env skills st))"
  then have m: "(k, rs) \<in> set (remove_duplicates {} ?G)"
    by (simp only: fst_find_resources_for_skills)
  have "distinct (map fst ?G)" by (simp only: keys_gathered) simp
  from remove_duplicates_bucket [OF this m] obtain seen where
    rs: "rs = take 10 (fst (unique_resources seen (dict_get ?G k)))" by blast
  then have "length rs \<le> 10" by simp
  moreover from rs have "subseq rs (dict_get ?G k)" by (simp only: take_unique_subseq)
  ultimately show "length rs \<le> 10 \<and> subseq rs (dict_get ?G k) \<and>
      (\<exists>seen. rs = take 10 (fst (unique_resources seen (dict_get ?G k))))"
    using rs by blast
qed

text \<open>
  On the concrete environment twelve courses with twelve different addresses are
  gathered, and ten are returned.
\<close>

theorem cap_invariant_witness:
  "(''courses'', dict_get (fst (find_resources_for_skills False demo_env [''python''] st0)) ''courses'')
     \<in> set (fst (find_resources_for_skills False demo_env [''python''] st0)) \<and>
   length (dict_get (fst (skills_loop False demo_env [''python''] (resources_by_category_init, st0)))
             ''courses'') = 12 \<and>
   length (dict_get (fst (find_resources_for_skills False demo_env [''python''] st0)) ''courses'') \<le> 10 \<and>
   subseq (dict_get (fst (find_resources_for_skills False demo_env [''python''] st0)) ''courses'')
     (dict_get (fst (skills_loop False demo_env [''python''] (resources_by_category_init, st0)))
        ''courses'')"
proof -
  have m: "(''courses'', dict_get (fst (find_resources_for_skills False demo_env [''python''] st0)) ''courses'')
     \<in> set (fst (find_resources_for_skills False demo_env [''python''] st0))"
    by code_simp
  have l: "length (dict_get (fst (skills_loop False demo_env [''python''] (resources_by_category_init, st0)))
             ''courses'') = 12"
    by code_simp
  from cap_invariant [of False demo_env "[''python'']" st0] m l show ?thesis by blast
qed

end
